theory Spec2Isabelle
  imports Main "HOL-Library.Word" "HOL-Library.Signed_Division"
begin

section \<open>EncryptionService\<close>

text \<open>
  The service is a thin layer over the Web Crypto API. The browser's own functions
  (PBKDF2 key derivation, AES-GCM, the random source, the text codecs, base64 and JSON)
  are not part of the repository: they are the fields of a \<open>platform\<close> record, and the
  service's code is written over an arbitrary platform. A \<open>Uint8Array\<close> is a list of
  bytes; a thrown \<open>Error\<close> is the \<open>Inl\<close> of a sum.
\<close>

type_synonym bytes = "8 word list"

datatype error = EncryptFailed | DecryptFailed | JsonSyntaxError | StorageWriteError

record ('k, 's) platform =
  random_source :: "nat \<Rightarrow> 8 word"
  pbkdf2 :: "bytes \<Rightarrow> bytes \<Rightarrow> int \<Rightarrow> 'k option"
  aes_gcm_encrypt :: "'k \<Rightarrow> bytes \<Rightarrow> bytes \<Rightarrow> bytes option"
  aes_gcm_decrypt :: "'k \<Rightarrow> bytes \<Rightarrow> bytes \<Rightarrow> bytes option"
  text_encode :: "string \<Rightarrow> bytes"
  text_decode :: "bytes \<Rightarrow> string"
  btoa :: "string \<Rightarrow> string"
  atob :: "string \<Rightarrow> string option"
  json_stringify :: "'s \<Rightarrow> string"
  json_parse :: "string \<Rightarrow> 's option"

text \<open>
  \<open>random_source P i\<close> is the \<open>i\<close>-th byte that \<open>window.crypto.getRandomValues\<close> hands
  out; the number of bytes consumed so far (the cursor) is threaded through every call
  that draws from it.
\<close>

record EncryptionOptions =
  opt_salt :: "bytes option"
  opt_iv :: "bytes option"
  opt_iterations :: "int option"

record EncryptionResult =
  r_encryptedData :: string
  r_salt :: string
  r_iv :: string

definition DEFAULT_ITERATIONS :: int where
  "DEFAULT_ITERATIONS = 100000"

definition SALT_LENGTH :: nat where
  "SALT_LENGTH = 16"

definition IV_LENGTH :: nat where
  "IV_LENGTH = 12"

definition no_options :: EncryptionOptions where
  "no_options = \<lparr>opt_salt = None, opt_iv = None, opt_iterations = None\<rparr>"

definition generateRandomBytes :: "('k, 's) platform \<Rightarrow> nat \<Rightarrow> nat \<Rightarrow> bytes \<times> nat" where
  "generateRandomBytes P len cursor = (map (random_source P) [cursor ..< cursor + len], cursor + len)"

definition arrayBufferToBase64 :: "('k, 's) platform \<Rightarrow> bytes \<Rightarrow> string" where
  "arrayBufferToBase64 P buffer = btoa P (map (\<lambda>b. char_of (unat b)) buffer)"

definition base64ToArrayBuffer :: "('k, 's) platform \<Rightarrow> string \<Rightarrow> bytes option" where
  "base64ToArrayBuffer P base64 =
     (case atob P base64 of
        None \<Rightarrow> None
      | Some binaryString \<Rightarrow> Some (map (\<lambda>c. of_char c) binaryString))"

definition deriveKey :: "('k, 's) platform \<Rightarrow> string \<Rightarrow> bytes \<Rightarrow> int \<Rightarrow> 'k option" where
  "deriveKey P password salt iterations = pbkdf2 P (text_encode P password) salt iterations"

definition encrypt ::
  "('k, 's) platform \<Rightarrow> string \<Rightarrow> string \<Rightarrow> EncryptionOptions \<Rightarrow> nat \<Rightarrow> (error + EncryptionResult) \<times> nat"
where
  "encrypt P data password options cursor =
     (let (salt, c1) = (case opt_salt options of
                          Some s \<Rightarrow> (s, cursor)
                        | None \<Rightarrow> generateRandomBytes P SALT_LENGTH cursor);
          (iv, c2) = (case opt_iv options of
                        Some v \<Rightarrow> (v, c1)
                      | None \<Rightarrow> generateRandomBytes P IV_LENGTH c1);
          iterations = (case opt_iterations options of
                          None \<Rightarrow> DEFAULT_ITERATIONS
                        | Some n \<Rightarrow> if n = 0 then DEFAULT_ITERATIONS else n)
      in case deriveKey P password salt iterations of
           None \<Rightarrow> (Inl EncryptFailed, c2)
         | Some key \<Rightarrow>
             (case aes_gcm_encrypt P key iv (text_encode P data) of
                None \<Rightarrow> (Inl EncryptFailed, c2)
              | Some encryptedBuffer \<Rightarrow>
                  (Inr \<lparr>r_encryptedData = arrayBufferToBase64 P encryptedBuffer,
                        r_salt = arrayBufferToBase64 P salt,
                        r_iv = arrayBufferToBase64 P iv\<rparr>, c2)))"

definition decrypt ::
  "('k, 's) platform \<Rightarrow> string \<Rightarrow> string \<Rightarrow> string \<Rightarrow> string \<Rightarrow> int \<Rightarrow> error + string"
where
  "decrypt P encryptedData password salt iv iterations =
     (case base64ToArrayBuffer P encryptedData of
        None \<Rightarrow> Inl DecryptFailed
      | Some encryptedBuffer \<Rightarrow>
     (case base64ToArrayBuffer P salt of
        None \<Rightarrow> Inl DecryptFailed
      | Some saltBuffer \<Rightarrow>
     (case base64ToArrayBuffer P iv of
        None \<Rightarrow> Inl DecryptFailed
      | Some ivBuffer \<Rightarrow>
     (case deriveKey P password saltBuffer iterations of
        None \<Rightarrow> Inl DecryptFailed
      | Some key \<Rightarrow>
     (case aes_gcm_decrypt P key ivBuffer encryptedBuffer of
        None \<Rightarrow> Inl DecryptFailed
      | Some decryptedBuffer \<Rightarrow> Inr (text_decode P decryptedBuffer))))))"

section \<open>StorageRepository and SecureStorageRepository\<close>

text \<open>
  An item of the secure repository has an id, its sensitive data, and the rest of its
  fields (\<open>publicData\<close>, what the destructuring in \<open>encryptItem\<close> leaves over).
\<close>

record ('s, 'p) secure_item =
  item_id :: string
  sensitiveData :: 's
  publicData :: 'p

record 'p encrypted_item =
  e_id :: string
  e_encryptedData :: string
  e_salt :: string
  e_iv :: string
  e_publicData :: 'p

text \<open>
  What \<open>localStorage\<close> holds under the repository's key: nothing, text that
  \<open>JSON.parse\<close> rejects, or the JSON text of an array of items (kept as the array it
  parses to; \<open>JSON.stringify\<close> followed by \<open>JSON.parse\<close> gives an item back unchanged).
  A stored value that is valid JSON without being an array of items is not modelled.
\<close>

datatype 'a slot = Missing | Garbled | Stored "'a list"

text \<open>
  The state the repository works on: the \<open>localStorage\<close> entry and whether a write to it
  throws (quota exceeded), the instance's password and its in-memory \<open>Map\<close> of encrypted
  items, and the cursor of the random source.
\<close>

record ('s, 'p) repo =
  local_storage :: "('s, 'p) secure_item slot"
  storage_full :: bool
  password :: string
  encryptedItems :: "string \<rightharpoonup> 'p encrypted_item"
  rng_cursor :: nat

text \<open>The constructor: a new instance starts with an empty map of encrypted items.\<close>

definition new_repository :: "string \<Rightarrow> ('s, 'p) repo \<Rightarrow> ('s, 'p) repo" where
  "new_repository pw st = st\<lparr>password := pw, encryptedItems := Map.empty\<rparr>"

definition setPassword :: "string \<Rightarrow> ('s, 'p) repo \<Rightarrow> ('s, 'p) repo" where
  "setPassword newPassword st = st\<lparr>password := newPassword\<rparr>"

subsection \<open>LocalStorageRepository\<close>

text \<open>
  The base class calls \<open>this.getAll()\<close> and \<open>this.saveAll(items)\<close>, which dispatch to the
  subclass's overrides; its methods therefore take the instance's \<open>getAll\<close> and \<open>saveAll\<close>
  as arguments.
\<close>

definition base_getAll :: "('s, 'p) repo \<Rightarrow> ('s, 'p) secure_item list" where
  "base_getAll st = (case local_storage st of Stored items \<Rightarrow> items | _ \<Rightarrow> [])"


definition base_saveAll ::
  "('s, 'p) secure_item list \<Rightarrow> ('s, 'p) repo \<Rightarrow> (error + unit) \<times> ('s, 'p) repo"
where
  "base_saveAll items st =
     (if storage_full st then (Inl StorageWriteError, st)
      else (Inr (), st\<lparr>local_storage := Stored items\<rparr>))"

fun findIndex :: "('a \<Rightarrow> bool) \<Rightarrow> 'a list \<Rightarrow> int" where
  "findIndex p [] = - 1"
| "findIndex p (x # xs) =
     (if p x then 0 else (let i = findIndex p xs in if i < 0 then - 1 else i + 1))"

definition base_save ::
  "(('s, 'p) repo \<Rightarrow> ('s, 'p) secure_item list) \<Rightarrow>
   (('s, 'p) secure_item list \<Rightarrow> ('s, 'p) repo \<Rightarrow> (error + unit) \<times> ('s, 'p) repo) \<Rightarrow>
   ('s, 'p) secure_item \<Rightarrow> ('s, 'p) repo \<Rightarrow> (error + ('s, 'p) secure_item) \<times> ('s, 'p) repo"
where
  "base_save this_getAll this_saveAll item st =
     (let items = this_getAll st;
          index = findIndex (\<lambda>i. item_id i = item_id item) items;
          items' = (if index \<ge> 0 then items[nat index := item] else items @ [item])
      in case this_saveAll items' st of
           (Inl e, st') \<Rightarrow> (Inl e, st')
         | (Inr _, st') \<Rightarrow> (Inr item, st'))"

subsection \<open>SecureStorageRepository\<close>

definition encryptItem ::
  "('k, 's) platform \<Rightarrow> ('s, 'p) secure_item \<Rightarrow> ('s, 'p) repo \<Rightarrow> (error + 'p encrypted_item) \<times> ('s, 'p) repo"
where
  "encryptItem P item st =
     (let sensitiveDataString = json_stringify P (sensitiveData item)
      in case encrypt P sensitiveDataString (password st) no_options (rng_cursor st) of
           (Inl e, c) \<Rightarrow> (Inl e, st\<lparr>rng_cursor := c\<rparr>)
         | (Inr encryptionResult, c) \<Rightarrow>
             (Inr \<lparr>e_id = item_id item,
                   e_encryptedData = r_encryptedData encryptionResult,
                   e_salt = r_salt encryptionResult,
                   e_iv = r_iv encryptionResult,
                   e_publicData = publicData item\<rparr>, st\<lparr>rng_cursor := c\<rparr>))"

definition decryptItem ::
  "('k, 's) platform \<Rightarrow> 'p encrypted_item \<Rightarrow> ('s, 'p) repo \<Rightarrow> error + ('s, 'p) secure_item"
where
  "decryptItem P encryptedItem st =
     (case decrypt P (e_encryptedData encryptedItem) (password st) (e_salt encryptedItem)
             (e_iv encryptedItem) DEFAULT_ITERATIONS of
        Inl e \<Rightarrow> Inl e
      | Inr decryptedDataString \<Rightarrow>
          (case json_parse P decryptedDataString of
             None \<Rightarrow> Inl JsonSyntaxError
           | Some sd \<Rightarrow>
               Inr \<lparr>item_id = e_id encryptedItem, sensitiveData = sd,
                    publicData = e_publicData encryptedItem\<rparr>))"

text \<open>
  \<open>getAll\<close>: the loop over the stored items, pushing onto \<open>decryptedItems\<close>. An item
  with an entry in the map is replaced by the decryption of that entry, or skipped
  when the decryption throws; an item without an entry is pushed as it is.
\<close>

fun getAll_loop ::
  "('k, 's) platform \<Rightarrow> ('s, 'p) repo \<Rightarrow> ('s, 'p) secure_item list \<Rightarrow> ('s, 'p) secure_item list \<Rightarrow>
   ('s, 'p) secure_item list"
where
  "getAll_loop P st [] decryptedItems = decryptedItems"
| "getAll_loop P st (item # items) decryptedItems =
     (case encryptedItems st (item_id item) of
        Some encryptedItem \<Rightarrow>
          (case decryptItem P encryptedItem st of
             Inr decryptedItem \<Rightarrow> getAll_loop P st items (decryptedItems @ [decryptedItem])
           | Inl _ \<Rightarrow> getAll_loop P st items decryptedItems)
      | None \<Rightarrow> getAll_loop P st items (decryptedItems @ [item]))"

definition getAll :: "('k, 's) platform \<Rightarrow> ('s, 'p) repo \<Rightarrow> ('s, 'p) secure_item list" where
  "getAll P st = getAll_loop P st (base_getAll st) []"


fun saveAll_loop ::
  "('k, 's) platform \<Rightarrow> ('s, 'p) secure_item list \<Rightarrow> ('s, 'p) repo \<Rightarrow> (error + unit) \<times> ('s, 'p) repo"
where
  "saveAll_loop P [] st = (Inr (), st)"
| "saveAll_loop P (item # items) st =
     (case encryptItem P item st of
        (Inl e, st') \<Rightarrow> (Inl e, st')
      | (Inr encryptedItem, st') \<Rightarrow>
          saveAll_loop P items
            (st'\<lparr>encryptedItems := (encryptedItems st')(item_id item \<mapsto> encryptedItem)\<rparr>))"

definition saveAll ::
  "('k, 's) platform \<Rightarrow> ('s, 'p) secure_item list \<Rightarrow> ('s, 'p) repo \<Rightarrow> (error + unit) \<times> ('s, 'p) repo"
where
  "saveAll P items st =
     (case saveAll_loop P items st of
        (Inl e, st') \<Rightarrow> (Inl e, st')
      | (Inr _, st') \<Rightarrow> base_saveAll items st')"

definition save ::
  "('k, 's) platform \<Rightarrow> ('s, 'p) secure_item \<Rightarrow> ('s, 'p) repo \<Rightarrow>
   (error + ('s, 'p) secure_item) \<times> ('s, 'p) repo"
where
  "save P item st =
     (case encryptItem P item st of
        (Inl e, st') \<Rightarrow> (Inl e, st')
      | (Inr encryptedItem, st') \<Rightarrow>
          base_save (getAll P) (saveAll P) item
            (st'\<lparr>encryptedItems := (encryptedItems st')(item_id item \<mapsto> encryptedItem)\<rparr>))"

section \<open>OTPService\<close>

text \<open>
  \<open>generateTOTP\<close> assigns \<open>totp.options\<close> and calls \<open>totp.generate(secret)\<close> of the
  otplib package. The package is not part of the repository: \<open>totp_generate\<close> stands for
  it, a function of the options in force and the secret that returns a token or throws.
  The second component of the result is the value of \<open>totp.options\<close> after the call.
  The numbers are handed on as they are, without any arithmetic: a whole number is an
  \<open>int\<close> here; an option left out is \<open>None\<close>.
\<close>

datatype HashAlgorithms = sha1 | sha256 | sha512

record OTPOptions =
  otp_digits :: "int option"
  otp_step :: "int option"
  otp_algorithm :: "HashAlgorithms option"
  otp_prefix :: "string option"
  otp_postfix :: "string option"

record totp_options =
  lib_digits :: int
  lib_step :: int
  lib_algorithm :: HashAlgorithms

definition generateTOTP ::
  "(totp_options \<Rightarrow> string \<Rightarrow> 'e + string) \<Rightarrow> string \<Rightarrow> OTPOptions \<Rightarrow> ('e + string) \<times> totp_options"
where
  "generateTOTP totp_generate secret options =
     (let prefix = (case otp_prefix options of None \<Rightarrow> [] | Some s \<Rightarrow> s);
          postfix = (case otp_postfix options of None \<Rightarrow> [] | Some s \<Rightarrow> s);
          digits = (case otp_digits options of None \<Rightarrow> 6 | Some d \<Rightarrow> d);
          step = (case otp_step options of None \<Rightarrow> 30 | Some s \<Rightarrow> s);
          algorithm = (case otp_algorithm options of None \<Rightarrow> sha1 | Some a \<Rightarrow> a);
          totp_opts = \<lparr>lib_digits = digits, lib_step = step, lib_algorithm = algorithm\<rparr>
      in case totp_generate totp_opts secret of
           Inl e \<Rightarrow> (Inl e, totp_opts)
         | Inr token \<Rightarrow> (Inr (prefix @ token @ postfix), totp_opts))"

text \<open>
  \<open>getRemainingTime\<close> reads the clock: \<open>now_ms\<close> is the value of \<open>Date.now()\<close>, a whole
  number of milliseconds. JavaScript's \<open>%\<close> truncates (the result has the sign of the
  dividend), which is \<open>smod\<close>; a zero \<open>step\<close> gives \<open>NaN\<close>.

  A JavaScript number is a double. The steps considered here are the whole numbers, and
  on whole numbers the arithmetic of doubles is the arithmetic of integers as long as
  nothing exceeds \<open>2 ^ 53\<close> in magnitude: for a step within this bound and a clock
  reading within the range of time values (\<open>8.64 * 10 ^ 15\<close> milliseconds on either side
  of the epoch), \<open>Math.floor(Date.now() / 1000)\<close> is \<open>now_ms div 1000\<close>, the remainder is
  exact, and so is the difference if it is within the bound too. Beyond these bounds
  the result is a rounded double, which is left undetermined here (\<open>Rounded\<close>).
\<close>

datatype js_number = NaN | Exact int | Rounded

definition MAX_EXACT :: int where
  "MAX_EXACT = 2 ^ 53"

definition MAX_TIME_VALUE :: int where
  "MAX_TIME_VALUE = 8640000000000000"

definition getRemainingTime :: "int option \<Rightarrow> int \<Rightarrow> js_number" where
  "getRemainingTime step_arg now_ms =
     (let step = (case step_arg of None \<Rightarrow> 30 | Some s \<Rightarrow> s);
          remaining = step - ((now_ms div 1000) smod step)
      in if step = 0 then NaN
         else if \<bar>step\<bar> \<le> MAX_EXACT \<and> \<bar>now_ms\<bar> \<le> MAX_TIME_VALUE \<and> \<bar>remaining\<bar> \<le> MAX_EXACT
         then Exact remaining
         else Rounded)"

section \<open>utils\<close>

text \<open>
  The string functions of JavaScript that \<open>parseOtpAuthUri\<close> uses, on 8-bit strings:
  \<open>trim\<close> removes the white space and line terminators below U+0100, the case
  conversions cover ASCII and Latin-1 (the three Latin-1 letters whose upper case lies
  outside Latin-1 are left as they are), and \<open>parseInt\<close> is \<open>parseInt(s, 10)\<close> with
  \<open>None\<close> for \<open>NaN\<close>.
\<close>

definition isWhiteSpace :: "char \<Rightarrow> bool" where
  "isWhiteSpace c = (of_char c \<in> {9, 10, 11, 12, 13, 32, 160 :: nat})"

definition trim :: "string \<Rightarrow> string" where
  "trim s = rev (dropWhile isWhiteSpace (rev (dropWhile isWhiteSpace s)))"

definition indexOf :: "char \<Rightarrow> string \<Rightarrow> int" where
  "indexOf c s = findIndex (\<lambda>x. x = c) s"

definition startsWith :: "string \<Rightarrow> string \<Rightarrow> bool" where
  "startsWith s p = (take (length p) s = p)"

definition endsWith :: "string \<Rightarrow> string \<Rightarrow> bool" where
  "endsWith s p = (length p \<le> length s \<and> drop (length s - length p) s = p)"

definition lowerChar :: "char \<Rightarrow> char" where
  "lowerChar c =
     (let n = (of_char c :: nat)
      in if (65 \<le> n \<and> n \<le> 90) \<or> (192 \<le> n \<and> n \<le> 222 \<and> n \<noteq> 215) then char_of (n + 32) else c)"

definition upperChar :: "char \<Rightarrow> char" where
  "upperChar c =
     (let n = (of_char c :: nat)
      in if (97 \<le> n \<and> n \<le> 122) \<or> (224 \<le> n \<and> n \<le> 254 \<and> n \<noteq> 247) then char_of (n - 32) else c)"

definition toLowerCase :: "string \<Rightarrow> string" where
  "toLowerCase s = map lowerChar s"

definition toUpperCase :: "string \<Rightarrow> string" where
  "toUpperCase s = map upperChar s"

definition isDigit :: "char \<Rightarrow> bool" where
  "isDigit c = (48 \<le> (of_char c :: nat) \<and> (of_char c :: nat) \<le> 57)"

definition digitValue :: "char \<Rightarrow> int" where
  "digitValue c = int (of_char c) - 48"

definition parseInt :: "string \<Rightarrow> int option" where
  "parseInt s =
     (let t = dropWhile isWhiteSpace s;
          (sign, u) = (case t of
                         c # r \<Rightarrow> if c = CHR ''-'' then (- 1, r)
                                  else if c = CHR ''+'' then (1, r) else (1, t)
                       | [] \<Rightarrow> (1 :: int, t));
          ds = takeWhile isDigit u
      in if ds = [] then None
         else Some (sign * foldl (\<lambda>acc c. 10 * acc + digitValue c) 0 ds))"

text \<open>
  The parameters object: its six known properties, and \<open>p_extra\<close> for every other
  property the loop assigns. \<open>new URL\<close> and \<open>decodeURIComponent\<close> are the browser's: they
  are arguments of the parser (\<open>None\<close> when they throw), and \<open>url\<close> holds the three parts
  of the parsed URL that the code reads.
\<close>

record OtpAuthParameters =
  p_secret :: "string option"
  p_issuer :: "string option"
  p_algorithm :: "string option"
  p_digits :: "int option"
  p_counter :: "int option"
  p_period :: "int option"
  p_extra :: "string \<rightharpoonup> string"

record OtpAuthLabel =
  l_issuer :: "string option"
  l_account :: string

datatype otp_type = totp | hotp

record OtpAuthData =
  d_type :: otp_type
  d_label :: OtpAuthLabel
  d_parameters :: OtpAuthParameters

record url =
  hostname :: string
  pathname :: string
  searchParams :: "(string \<times> string) list"

text \<open>
  Step 3 of \<open>parseOtpAuthUri\<close>: the label's issuer and account, or \<open>None\<close> where the
  function returns null (an empty account) or a re-decoding throws.
\<close>

definition parse_label :: "(string \<Rightarrow> string option) \<Rightarrow> string \<Rightarrow> (string option \<times> string) option" where
  "parse_label decodeURIComponent decodedLabelStr =
     (let firstColonIndex = indexOf CHR '':'' decodedLabelStr
      in if firstColonIndex > 0 \<and> firstColonIndex < int (length decodedLabelStr) - 1
         then
           (let labelIssuer = trim (take (nat firstColonIndex) decodedLabelStr);
                labelAccount = trim (drop (nat firstColonIndex + 1) decodedLabelStr)
            in case (if startsWith labelAccount ''%3A'' then decodeURIComponent labelAccount
                     else Some labelAccount) of
                 None \<Rightarrow> None
               | Some labelAccount1 \<Rightarrow>
                   (if endsWith labelIssuer ''%3'' \<and> startsWith labelAccount1 ''A''
                    then (case decodeURIComponent labelIssuer of
                            None \<Rightarrow> None
                          | Some labelIssuer2 \<Rightarrow>
                              (case decodeURIComponent labelAccount1 of
                                 None \<Rightarrow> None
                               | Some labelAccount2 \<Rightarrow>
                                   if labelAccount2 = [] then None
                                   else Some (Some labelIssuer2, labelAccount2)))
                    else if labelAccount1 = [] then None
                    else Some (Some labelIssuer, labelAccount1)))
         else if decodedLabelStr = [] then None
         else Some (None, decodedLabelStr))"

text \<open>
  Step 4: the \<open>switch\<close> on the lower-cased key, and the loop over the query's entries.
  Assigning the property \<open>__proto__\<close> of an object literal a string is a no-op.
\<close>

definition empty_params :: OtpAuthParameters where
  "empty_params =
     \<lparr>p_secret = None, p_issuer = None, p_algorithm = None, p_digits = None,
      p_counter = None, p_period = None, p_extra = Map.empty\<rparr>"

definition set_param :: "string \<Rightarrow> string \<Rightarrow> OtpAuthParameters \<Rightarrow> OtpAuthParameters" where
  "set_param lowerKey decodedValue params =
     (if lowerKey = ''secret'' then params\<lparr>p_secret := Some decodedValue\<rparr>
      else if lowerKey = ''issuer'' then params\<lparr>p_issuer := Some decodedValue\<rparr>
      else if lowerKey = ''algorithm'' then
        (let upperAlg = toUpperCase decodedValue
         in if upperAlg = ''SHA1'' \<or> upperAlg = ''SHA256'' \<or> upperAlg = ''SHA512''
            then params\<lparr>p_algorithm := Some upperAlg\<rparr>
            else params\<lparr>p_algorithm := Some decodedValue\<rparr>)
      else if lowerKey = ''digits'' then
        (case parseInt decodedValue of
           None \<Rightarrow> params
         | Some digits \<Rightarrow>
             if digits = 6 \<or> digits = 8 then params\<lparr>p_digits := Some digits\<rparr>
             else if digits > 0 then params\<lparr>p_digits := Some digits\<rparr>
             else params)
      else if lowerKey = ''period'' then
        (case parseInt decodedValue of
           None \<Rightarrow> params
         | Some period \<Rightarrow> if period > 0 then params\<lparr>p_period := Some period\<rparr> else params)
      else if lowerKey = ''counter'' then
        (case parseInt decodedValue of
           None \<Rightarrow> params
         | Some counter \<Rightarrow> if counter \<ge> 0 then params\<lparr>p_counter := Some counter\<rparr> else params)
      else if lowerKey = ''__proto__'' then params
      else params\<lparr>p_extra := (p_extra params)(lowerKey \<mapsto> decodedValue)\<rparr>)"

fun extract_parameters ::
  "(string \<Rightarrow> string option) \<Rightarrow> (string \<times> string) list \<Rightarrow> OtpAuthParameters \<Rightarrow> OtpAuthParameters option"
where
  "extract_parameters decodeURIComponent [] params = Some params"
| "extract_parameters decodeURIComponent ((key, val) # entries) params =
     (let lowerKey = toLowerCase key
      in case decodeURIComponent val of
           None \<Rightarrow> None
         | Some decodedValue \<Rightarrow>
             extract_parameters decodeURIComponent entries (set_param lowerKey decodedValue params))"

definition parseOtpAuthUri ::
  "(string \<Rightarrow> url option) \<Rightarrow> (string \<Rightarrow> string option) \<Rightarrow> string \<Rightarrow> OtpAuthData option"
where
  "parseOtpAuthUri new_URL decodeURIComponent uriString =
     (if \<not> startsWith uriString ''otpauth://'' then None
      else case new_URL uriString of
        None \<Rightarrow> None
      | Some u \<Rightarrow>
     (let type = toLowerCase (hostname u)
      in if type \<noteq> ''totp'' \<and> type \<noteq> ''hotp'' then None
      else
     (let encodedPath = (if startsWith (pathname u) ''/'' then drop 1 (pathname u) else pathname u)
      in if encodedPath = [] then None
      else case decodeURIComponent encodedPath of
        None \<Rightarrow> None
      | Some decodedLabelStr \<Rightarrow>
     (case parse_label decodeURIComponent decodedLabelStr of
        None \<Rightarrow> None
      | Some (labelIssuer, labelAccount) \<Rightarrow>
     (case extract_parameters decodeURIComponent (searchParams u) empty_params of
        None \<Rightarrow> None
      | Some params \<Rightarrow>
          if p_secret params = None \<or> p_secret params = Some [] then None
          else if type = ''hotp'' \<and> p_counter params = None then None
          else
            (let finalIssuer = (case p_issuer params of
                                  Some i \<Rightarrow> if i \<noteq> [] then Some i else labelIssuer
                                | None \<Rightarrow> labelIssuer);
                 params' = (if finalIssuer \<noteq> None \<and> finalIssuer \<noteq> Some [] \<and> p_issuer params = None
                            then params\<lparr>p_issuer := finalIssuer\<rparr> else params)
             in Some \<lparr>d_type = (if type = ''totp'' then totp else hotp),
                      d_label = \<lparr>l_issuer = labelIssuer, l_account = labelAccount\<rparr>,
                      d_parameters = params'\<rparr>))))))"

text \<open>
  For examples: \<open>decodeURIComponent\<close> on text whose escapes are all below \<open>%80\<close>. (An
  escaped multi-byte sequence decodes to a character outside 8-bit strings; this
  function gives \<open>None\<close> there, and no example below has one.)
\<close>

definition hexValue :: "char \<Rightarrow> nat option" where
  "hexValue c =
     (let n = (of_char c :: nat)
      in if 48 \<le> n \<and> n \<le> 57 then Some (n - 48)
         else if 65 \<le> n \<and> n \<le> 70 then Some (n - 55)
         else if 97 \<le> n \<and> n \<le> 102 then Some (n - 87)
         else None)"

fun decodeURIComponent_ascii :: "string \<Rightarrow> string option" where
  "decodeURIComponent_ascii [] = Some []"
| "decodeURIComponent_ascii (c # cs) =
     (if c = CHR ''%'' then
        (case cs of
           h1 # h2 # rest \<Rightarrow>
             (case (hexValue h1, hexValue h2) of
                (Some a, Some b) \<Rightarrow>
                  if 16 * a + b < 128
                  then map_option ((#) (char_of (16 * a + b))) (decodeURIComponent_ascii rest)
                  else None
              | _ \<Rightarrow> None)
         | _ \<Rightarrow> None)
      else map_option ((#) c) (decodeURIComponent_ascii cs))"

section \<open>Notions used in the statements\<close>







text \<open>The keys with a case of their own in the \<open>switch\<close> of \<open>parseOtpAuthUri\<close>.\<close>

definition recognised_keys :: "string set" where
  "recognised_keys = {''secret'', ''issuer'', ''algorithm'', ''digits'', ''period'', ''counter''}"

text \<open>The same URL parser, with every query key lower-cased.\<close>

definition lower_keys :: "(string \<Rightarrow> url option) \<Rightarrow> string \<Rightarrow> url option" where
  "lower_keys new_URL s =
     map_option (\<lambda>u. u\<lparr>searchParams := map (\<lambda>(k, v). (toLowerCase k, v)) (searchParams u)\<rparr>)
       (new_URL s)"

section \<open>A platform for running examples\<close>

text \<open>
  A stand-in for the browser, used only to run the code above on concrete inputs. Its
  cipher is a placeholder without any secrecy: the ciphertext carries the key (its
  length in unary, a zero, the key) in front of the data, so that opening it under
  the same key gives the data back and opening it under any other key fails.

  Its key derivation keeps what PBKDF2 with HMAC makes of a password: HMAC takes the
  password as its key and pads a key shorter than its block of 64 bytes with zero bytes
  (RFC 2104), so that a password and the same password followed by NUL characters
  derive the same key. The derived key is this padded block followed by the salt. (A
  password longer than the block, which HMAC hashes first, is kept as it is.)

  The sensitive data of an example item is its JSON text.
\<close>

definition hmac_key_block :: "bytes \<Rightarrow> bytes" where
  "hmac_key_block key = key @ replicate (64 - length key) 0"

definition demo_seal :: "bytes \<Rightarrow> bytes \<Rightarrow> bytes \<Rightarrow> bytes option" where
  "demo_seal key iv d = Some (replicate (length key) 1 @ [0] @ key @ d)"

definition demo_open :: "bytes \<Rightarrow> bytes \<Rightarrow> bytes \<Rightarrow> bytes option" where
  "demo_open key iv c =
     (let n = length (takeWhile (\<lambda>b. b = 1) c);
          rest = drop (n + 1) c
      in if n < length c \<and> n = length key \<and> take n rest = key then Some (drop n rest) else None)"

definition demo_platform :: "(bytes, string) platform" where
  "demo_platform =
     \<lparr>random_source = (\<lambda>i. of_nat i),
      pbkdf2 = (\<lambda>pw salt n. if n \<le> 0 then None else Some (hmac_key_block pw @ salt)),
      aes_gcm_encrypt = demo_seal,
      aes_gcm_decrypt = demo_open,
      text_encode = map of_char,
      text_decode = map (\<lambda>b. char_of (unat b)),
      btoa = (\<lambda>s. s),
      atob = Some,
      json_stringify = (\<lambda>s. s),
      json_parse = Some\<rparr>"

definition empty_browser :: "(string, string) repo" where
  "empty_browser =
     \<lparr>local_storage = Missing, storage_full = False, password = ''correcthorse1'',
      encryptedItems = Map.empty, rng_cursor = 0\<rparr>"

definition github_item :: "(string, string) secure_item" where
  "github_item =
     \<lparr>item_id = ''a'', sensitiveData = ''JBSWY3DPEHPK3PXP'', publicData = ''GitHub''\<rparr>"

definition gitlab_item :: "(string, string) secure_item" where
  "gitlab_item =
     \<lparr>item_id = ''b'', sensitiveData = ''GEZDGNBVGY3TQOJQ'', publicData = ''GitLab''\<rparr>"

text \<open>
  What \<open>new URL\<close> returns for the two URIs of the examples (the path stays
  percent-encoded, the query is split and decoded).
\<close>

definition example_URL :: "string \<Rightarrow> url option" where
  "example_URL s =
     (if s = ''otpauth://totp/Example:alice@example.com?SECRET=JBSWY3DPEHPK3PXP&Image=logo.png''
      then Some \<lparr>hostname = ''totp'', pathname = ''/Example:alice@example.com'',
                 searchParams = [(''SECRET'', ''JBSWY3DPEHPK3PXP''), (''Image'', ''logo.png'')]\<rparr>
      else if s = ''otpauth://totp/Ex:%253Auser?secret=JBSWY3DPEHPK3PXP&Note=a%2541''
      then Some \<lparr>hostname = ''totp'', pathname = ''/Ex:%253Auser'',
                 searchParams = [(''secret'', ''JBSWY3DPEHPK3PXP''), (''Note'', ''a%41'')]\<rparr>
      else None)"

section \<open>Properties of EncryptionService\<close>

lemma byte_char_byte: "(of_char (char_of (unat b)) :: 8 word) = b" for b :: "8 word"
proof -
  have lt: "unat b < 256" using unsigned_less [of b] by simp
  have "(of_char (char_of (unat b)) :: 8 word) = of_nat (of_char (char_of (unat b)))"
    by (simp only: of_nat_of_char)
  also have "(of_char (char_of (unat b)) :: nat) = unat b mod 256" by (rule of_char_of)
  also have "unat b mod 256 = unat b" using lt by simp
  finally show ?thesis by simp
qed

lemma bytes_binary_bytes:
  "map (\<lambda>c. of_char c) (map (\<lambda>b. char_of (unat b)) (buffer :: bytes)) = buffer"
  by (induction buffer) (simp_all add: byte_char_byte)

lemma base64_roundtrip:
  assumes "\<And>s. atob P (btoa P s) = Some s"
  shows "base64ToArrayBuffer P (arrayBufferToBase64 P buffer) = Some buffer"
proof -
  have "atob P (btoa P (map (\<lambda>b. char_of (unat b)) buffer)) = Some (map (\<lambda>b. char_of (unat b)) buffer)"
    by (rule assms)
  then show ?thesis
    unfolding base64ToArrayBuffer_def arrayBufferToBase64_def
    by (simp only: option.case bytes_binary_bytes)
qed

lemma encrypt_no_options_Inr:
  assumes "fst (encrypt P d pw no_options c) = Inr r"
  shows "\<exists>key ct.
     deriveKey P pw (map (random_source P) [c ..< c + SALT_LENGTH]) DEFAULT_ITERATIONS = Some key \<and>
     aes_gcm_encrypt P key (map (random_source P) [c + SALT_LENGTH ..< c + SALT_LENGTH + IV_LENGTH])
       (text_encode P d) = Some ct \<and>
     r_encryptedData r = arrayBufferToBase64 P ct \<and>
     r_salt r = arrayBufferToBase64 P (map (random_source P) [c ..< c + SALT_LENGTH]) \<and>
     r_iv r = arrayBufferToBase64 P
                (map (random_source P) [c + SALT_LENGTH ..< c + SALT_LENGTH + IV_LENGTH])"
  using assms
  unfolding encrypt_def no_options_def generateRandomBytes_def Let_def
  by (auto split: option.splits)

lemma decrypt_encoded:
  assumes "\<And>s. atob P (btoa P s) = Some s"
  shows "decrypt P (arrayBufferToBase64 P ct) pw (arrayBufferToBase64 P salt)
           (arrayBufferToBase64 P iv) iterations =
     (case deriveKey P pw salt iterations of
        None \<Rightarrow> Inl DecryptFailed
      | Some k \<Rightarrow>
          (case aes_gcm_decrypt P k iv ct of
             None \<Rightarrow> Inl DecryptFailed
           | Some d \<Rightarrow> Inr (text_decode P d)))"
  by (simp add: decrypt_def base64_roundtrip [OF assms])

text \<open>
  C2 (as the code has it). On a platform whose AES-GCM opens what it sealed under the
  same key and IV and whose \<open>atob\<close> inverts \<open>btoa\<close>, and for a plaintext that
  \<open>TextDecoder\<close> gives back unchanged from the bytes \<open>TextEncoder\<close> made of it (text
  without a leading byte order mark and without lone surrogates; for other text the
  codecs of the browser do not invert each other), decrypting the result of \<open>encrypt\<close>
  with the same password returns the original plaintext. With any password, \<open>decrypt\<close>
  yields the decryption error whenever the browser's PBKDF2 or AES-GCM rejects, and
  otherwise the text that AES-GCM released under the key derived from that password,
  never anything else. A different password is thus rejected as far as it derives a
  different key and AES-GCM refuses that key; the code has no check of its own.
\<close>

theorem decrypt_after_encrypt:
  assumes seal_open: "\<And>k iv d c. aes_gcm_encrypt P k iv d = Some c \<Longrightarrow> aes_gcm_decrypt P k iv c = Some d"
    and b64: "\<And>s. atob P (btoa P s) = Some s"
    and utf8: "text_decode P (text_encode P data) = data"
    and enc: "fst (encrypt P data pw no_options cursor) = Inr r"
  shows "decrypt P (r_encryptedData r) pw (r_salt r) (r_iv r) DEFAULT_ITERATIONS = Inr data \<and>
     (\<exists>salt iv key ct.
        salt = map (random_source P) [cursor ..< cursor + SALT_LENGTH] \<and>
        iv = map (random_source P) [cursor + SALT_LENGTH ..< cursor + SALT_LENGTH + IV_LENGTH] \<and>
        deriveKey P pw salt DEFAULT_ITERATIONS = Some key \<and>
        aes_gcm_encrypt P key iv (text_encode P data) = Some ct \<and>
        (\<forall>other.
           decrypt P (r_encryptedData r) other (r_salt r) (r_iv r) DEFAULT_ITERATIONS =
             (case deriveKey P other salt DEFAULT_ITERATIONS of
                None \<Rightarrow> Inl DecryptFailed
              | Some k \<Rightarrow>
                  (case aes_gcm_decrypt P k iv ct of
                     None \<Rightarrow> Inl DecryptFailed
                   | Some d \<Rightarrow> Inr (text_decode P d)))))"
proof -
  let ?salt = "map (random_source P) [cursor ..< cursor + SALT_LENGTH]"
  let ?iv = "map (random_source P) [cursor + SALT_LENGTH ..< cursor + SALT_LENGTH + IV_LENGTH]"
  from encrypt_no_options_Inr [OF enc] obtain key ct where
    key: "deriveKey P pw ?salt DEFAULT_ITERATIONS = Some key"
    and ct: "aes_gcm_encrypt P key ?iv (text_encode P data) = Some ct"
    and r: "r_encryptedData r = arrayBufferToBase64 P ct"
           "r_salt r = arrayBufferToBase64 P ?salt"
           "r_iv r = arrayBufferToBase64 P ?iv"
    by blast
  have any: "decrypt P (r_encryptedData r) other (r_salt r) (r_iv r) DEFAULT_ITERATIONS =
             (case deriveKey P other ?salt DEFAULT_ITERATIONS of
                None \<Rightarrow> Inl DecryptFailed
              | Some k \<Rightarrow>
                  (case aes_gcm_decrypt P k ?iv ct of
                     None \<Rightarrow> Inl DecryptFailed
                   | Some d \<Rightarrow> Inr (text_decode P d)))" for other
    unfolding r by (rule decrypt_encoded [OF b64])
  have "aes_gcm_decrypt P key ?iv ct = Some (text_encode P data)"
    using ct by (rule seal_open)
  with any [of pw] key utf8
  have same: "decrypt P (r_encryptedData r) pw (r_salt r) (r_iv r) DEFAULT_ITERATIONS = Inr data"
    by simp
  from same key ct any show ?thesis by blast
qed

lemma demo_open_seal: "demo_seal k iv d = Some c \<Longrightarrow> demo_open k iv c = Some d"
  by (auto simp: demo_seal_def demo_open_def Let_def takeWhile_append)

lemma char_byte_char: "char_of (unat (of_char c :: 8 word)) = c"
proof -
  have "(of_char c :: 8 word) = of_nat (of_char c)" by (simp only: of_nat_of_char)
  then have "unat (of_char c :: 8 word) = (of_char c :: nat) mod 2 ^ LENGTH(8)"
    by (simp only: unat_of_nat)
  also have "\<dots> = of_char c" by simp
  finally show ?thesis by simp
qed

theorem decrypt_after_encrypt_witness:
  "decrypt demo_platform
     (r_encryptedData (projr (fst (encrypt demo_platform ''JBSWY3DPEHPK3PXP'' ''a'' no_options 0))))
     ''a''
     (r_salt (projr (fst (encrypt demo_platform ''JBSWY3DPEHPK3PXP'' ''a'' no_options 0))))
     (r_iv (projr (fst (encrypt demo_platform ''JBSWY3DPEHPK3PXP'' ''a'' no_options 0))))
     DEFAULT_ITERATIONS = Inr ''JBSWY3DPEHPK3PXP''"
proof -
  let ?res = "fst (encrypt demo_platform ''JBSWY3DPEHPK3PXP'' ''a'' no_options 0)"
  have "\<not> isl ?res" by code_simp
  then have enc: "?res = Inr (projr ?res)" by simp
  have seal_open: "aes_gcm_decrypt demo_platform k iv c = Some d"
    if "aes_gcm_encrypt demo_platform k iv d = Some c" for k iv d c
    using that by (simp add: demo_platform_def demo_open_seal)
  have b64: "atob demo_platform (btoa demo_platform s) = Some s" for s
    by (simp add: demo_platform_def)
  have utf8: "text_decode demo_platform (text_encode demo_platform s) = s" for s
    by (simp add: demo_platform_def o_def char_byte_char)
  from decrypt_after_encrypt [of demo_platform, OF seal_open b64 utf8 enc]
  show ?thesis by (rule conjunct1)
qed

text \<open>
  The password \<open>a\<close> followed by a NUL character derives the same key as \<open>a\<close> (HMAC
  pads its key with zero bytes), and decrypts what was encrypted under \<open>a\<close>.
\<close>

theorem decrypt_other_password_counterexample:
  "(case fst (encrypt demo_platform ''JBSWY3DPEHPK3PXP'' ''a'' no_options 0) of
      Inl _ \<Rightarrow> False
    | Inr r \<Rightarrow>
        decrypt demo_platform (r_encryptedData r) [CHR ''a'', CHR 0x00] (r_salt r) (r_iv r)
          DEFAULT_ITERATIONS = Inr ''JBSWY3DPEHPK3PXP'') \<and>
   [CHR ''a'', CHR 0x00] \<noteq> ''a''"
  by code_simp

section \<open>Properties of the secure repository\<close>





lemma getAll_loop_acc:
  "getAll_loop P st items acc = acc @ getAll_loop P st items []"
proof (induction items arbitrary: acc)
  case Nil
  show ?case by simp
next
  case (Cons item items)
  note IH = Cons.IH
  show ?case
  proof (cases "encryptedItems st (item_id item)")
    case None
    then show ?thesis using IH [of "acc @ [item]"] IH [of "[item]"] by simp
  next
    case (Some e)
    show ?thesis
    proof (cases "decryptItem P e st")
      case (Inl err)
      with Some show ?thesis using IH [of acc] by simp
    next
      case (Inr d)
      with Some show ?thesis using IH [of "acc @ [d]"] IH [of "[d]"] by simp
    qed
  qed
qed

lemma getAll_loop_no_entries:
  "\<forall>item \<in> set items. encryptedItems st (item_id item) = None \<Longrightarrow>
     getAll_loop P st items acc = acc @ items"
  by (induction items arbitrary: acc) simp_all

lemma getAll_new_repository: "getAll P (new_repository pw st) = base_getAll st"
proof -
  have "base_getAll (new_repository pw st) = base_getAll st"
    by (simp add: base_getAll_def new_repository_def)
  moreover have "\<forall>item \<in> set (base_getAll st). encryptedItems (new_repository pw st) (item_id item) = None"
    by (simp add: new_repository_def)
  ultimately show ?thesis
    using getAll_loop_no_entries [of "base_getAll st" "new_repository pw st" P "[]"]
    by (simp add: getAll_def)
qed

lemma decryptItem_password:
  "password st = password st' \<Longrightarrow> decryptItem P e st = decryptItem P e st'"
  by (simp add: decryptItem_def)

text \<open>
  C4 (as the code has it). For every stored collection of records, \<open>getAll\<close> returns,
  in storage order, every record except those whose decryption fails: a record with an
  entry in the instance's map of encrypted items contributes the decryption of that
  entry when it succeeds and nothing when it fails (wrong password, corrupted data,
  unparsable JSON); a record without an entry is returned as stored, with no
  decryption at all. The call itself never fails: it always returns a list.
\<close>

theorem getAll_skips_failed_records:
  "getAll P st =
     concat (map (\<lambda>item. case encryptedItems st (item_id item) of
                            None \<Rightarrow> [item]
                          | Some encryptedItem \<Rightarrow>
                              (case decryptItem P encryptedItem st of
                                 Inl _ \<Rightarrow> []
                               | Inr decryptedItem \<Rightarrow> [decryptedItem]))
                 (base_getAll st))"
proof -
  have "getAll_loop P st items [] =
     concat (map (\<lambda>item. case encryptedItems st (item_id item) of
                            None \<Rightarrow> [item]
                          | Some encryptedItem \<Rightarrow>
                              (case decryptItem P encryptedItem st of
                                 Inl _ \<Rightarrow> []
                               | Inr decryptedItem \<Rightarrow> [decryptedItem])) items)" for items
  proof (induction items)
    case Nil
    show ?case by simp
  next
    case (Cons item items)
    show ?case
      using Cons.IH getAll_loop_acc [of P st items "[item]"]
        getAll_loop_acc [of P st items "[d]" for d]
      by (simp split: option.splits sum.splits)
  qed
  then show ?thesis by (simp add: getAll_def)
qed

text \<open>
  A new instance, constructed with another password over the storage that a previous
  instance wrote: the record is returned although nothing was decrypted, and the
  ciphertext the previous instance made for it does not open under the new password.
\<close>

theorem getAll_without_entry_counterexample:
  "getAll demo_platform
     (new_repository ''wrong'' (snd (save demo_platform github_item empty_browser))) = [github_item] \<and>
   encryptedItems
     (new_repository ''wrong'' (snd (save demo_platform github_item empty_browser))) ''a'' = None \<and>
   (\<exists>e. encryptedItems (snd (save demo_platform github_item empty_browser)) ''a'' = Some e \<and>
        decryptItem demo_platform e
          (new_repository ''wrong'' (snd (save demo_platform github_item empty_browser))) =
        Inl DecryptFailed)"
proof -
  let ?st = "snd (save demo_platform github_item empty_browser)"
  have stored: "local_storage ?st = Stored [github_item]" by code_simp
  have a: "getAll demo_platform (new_repository ''wrong'' ?st) = [github_item]"
    using stored by (simp add: getAll_new_repository base_getAll_def)
  have b: "encryptedItems (new_repository ''wrong'' ?st) ''a'' = None"
    by (simp add: new_repository_def)
  have "(case encryptedItems ?st ''a'' of
      None \<Rightarrow> False
    | Some e \<Rightarrow> decryptItem demo_platform e (setPassword ''wrong'' empty_browser) = Inl DecryptFailed)"
    by code_simp
  then obtain e where e: "encryptedItems ?st ''a'' = Some e"
    and d: "decryptItem demo_platform e (setPassword ''wrong'' empty_browser) = Inl DecryptFailed"
    by (auto split: option.splits)
  have pw: "password (new_repository ''wrong'' ?st) = password (setPassword ''wrong'' empty_browser)"
    by (simp add: new_repository_def setPassword_def)
  have "decryptItem demo_platform e (new_repository ''wrong'' ?st) = Inl DecryptFailed"
    using decryptItem_password [OF pw, of demo_platform e] d by (rule trans)
  with e have c: "\<exists>e. encryptedItems ?st ''a'' = Some e \<and>
        decryptItem demo_platform e (new_repository ''wrong'' ?st) = Inl DecryptFailed" by blast
  from a b c show ?thesis by (intro conjI)
qed

text \<open>
  An instance holding an entry for \<open>a\<close> that its password no longer opens, and a stored
  record \<open>b\<close> without an entry: \<open>a\<close> is left out, \<open>b\<close> is returned.
\<close>

lemma getAll_example:
  "getAll demo_platform
     ((setPassword ''other'' (snd (save demo_platform github_item empty_browser)))
        \<lparr>local_storage := Stored [github_item, gitlab_item]\<rparr>) = [gitlab_item]"
  by code_simp

lemma findIndex_bound: "0 \<le> findIndex p xs \<Longrightarrow> nat (findIndex p xs) < length xs"
  by (induction xs) (auto simp: Let_def split: if_splits)

lemma base_saveAll_storage:
  "fst (base_saveAll items st) = Inr u \<Longrightarrow> local_storage (snd (base_saveAll items st)) = Stored items"
  by (auto simp: base_saveAll_def split: if_splits)

lemma saveAll_storage:
  "fst (saveAll P items st) = Inr u \<Longrightarrow> local_storage (snd (saveAll P items st)) = Stored items"
  unfolding saveAll_def
  by (auto split: prod.splits sum.splits simp: base_saveAll_def)

lemma base_save_storage:
  assumes "fst (base_save g (saveAll P) item st) = Inr r"
  shows "\<exists>items. local_storage (snd (base_save g (saveAll P) item st)) = Stored items \<and>
           item \<in> set items \<and> r = item"
proof -
  define items where "items = g st"
  define index where "index = findIndex (\<lambda>i. item_id i = item_id item) items"
  define items' where "items' = (if index \<ge> 0 then items[nat index := item] else items @ [item])"
  have mem: "item \<in> set items'"
  proof (cases "index \<ge> 0")
    case True
    then have "nat index < length items"
      unfolding index_def by (rule findIndex_bound)
    with True show ?thesis by (simp add: items'_def set_update_memI)
  next
    case False
    then show ?thesis by (simp add: items'_def)
  qed
  have unfold: "base_save g (saveAll P) item st =
      (case saveAll P items' st of (Inl e, st') \<Rightarrow> (Inl e, st') | (Inr _, st') \<Rightarrow> (Inr item, st'))"
    by (simp add: base_save_def Let_def items_def index_def items'_def)
  obtain res st' where sv: "saveAll P items' st = (res, st')" by (cases "saveAll P items' st")
  show ?thesis
  proof (cases res)
    case (Inl e)
    with assms unfold sv show ?thesis by simp
  next
    case (Inr u)
    with sv have "fst (saveAll P items' st) = Inr u" by simp
    then have "local_storage (snd (saveAll P items' st)) = Stored items'"
      by (rule saveAll_storage)
    with sv Inr unfold assms mem show ?thesis by auto
  qed
qed

text \<open>
  C1. The specification requires that, with a vault password active, the sensitive
  data of a saved item never reaches a persisted record in cleartext, and the comments
  of the repository promise the same. The code does the opposite:
  \<open>save\<close> keeps the ciphertext in the in-memory map only, and what it writes to
  \<open>localStorage\<close> is the array of items themselves. After every successful \<open>save\<close> the
  persisted array contains the item as it was passed in, sensitive data included, and
  after every successful \<open>saveAll\<close> the persisted array is the array of items passed in.
\<close>

theorem save_persists_sensitive_data_in_clear:
  "(fst (save P item st) = Inr r \<longrightarrow>
      (\<exists>items. local_storage (snd (save P item st)) = Stored items \<and> item \<in> set items)) \<and>
   (fst (saveAll P items st) = Inr u \<longrightarrow>
      local_storage (snd (saveAll P items st)) = Stored items)"
proof (intro conjI impI)
  assume ok: "fst (save P item st) = Inr r"
  obtain res st1 where enc: "encryptItem P item st = (res, st1)" by (cases "encryptItem P item st")
  show "\<exists>items. local_storage (snd (save P item st)) = Stored items \<and> item \<in> set items"
  proof (cases res)
    case (Inl e)
    with enc ok show ?thesis by (simp add: save_def)
  next
    case (Inr encryptedItem)
    define st2 where "st2 = st1\<lparr>encryptedItems := (encryptedItems st1)(item_id item \<mapsto> encryptedItem)\<rparr>"
    have eq: "save P item st = base_save (getAll P) (saveAll P) item st2"
      using enc Inr by (simp add: save_def st2_def)
    with ok have "fst (base_save (getAll P) (saveAll P) item st2) = Inr r" by simp
    from base_save_storage [OF this] eq show ?thesis by auto
  qed
next
  assume "fst (saveAll P items st) = Inr u"
  then show "local_storage (snd (saveAll P items st)) = Stored items"
    by (rule saveAll_storage)
qed

theorem save_persists_sensitive_data_in_clear_witness:
  "fst (save demo_platform github_item empty_browser) = Inr github_item \<and>
   (\<exists>items. local_storage (snd (save demo_platform github_item empty_browser)) = Stored items \<and>
      github_item \<in> set items)"
proof -
  have ok: "fst (save demo_platform github_item empty_browser) = Inr github_item"
    by code_simp
  from save_persists_sensitive_data_in_clear [of demo_platform github_item empty_browser github_item] ok
  show ?thesis by blast
qed





















section \<open>Properties of OTPService\<close>

text \<open>
  C5 (as the code has it). \<open>generateTOTP\<close> checks neither the period nor the number of
  digits: whatever they are, zero and negative values included, they are installed as
  \<open>totp.options\<close> and handed to the library unchanged (6 digits and a period of 30 only
  where the option is left out), and the result is the library's token between prefix
  and postfix. A request is rejected only if the library throws.
\<close>

theorem generateTOTP_forwards_parameters:
  "snd (generateTOTP totp_generate secret options) =
     \<lparr>lib_digits = (case otp_digits options of None \<Rightarrow> 6 | Some d \<Rightarrow> d),
      lib_step = (case otp_step options of None \<Rightarrow> 30 | Some p \<Rightarrow> p),
      lib_algorithm = (case otp_algorithm options of None \<Rightarrow> sha1 | Some a \<Rightarrow> a)\<rparr> \<and>
   fst (generateTOTP totp_generate secret options) =
     (case totp_generate (snd (generateTOTP totp_generate secret options)) secret of
        Inl e \<Rightarrow> Inl e
      | Inr token \<Rightarrow>
          Inr ((case otp_prefix options of None \<Rightarrow> [] | Some s \<Rightarrow> s) @ token @
               (case otp_postfix options of None \<Rightarrow> [] | Some s \<Rightarrow> s)))"
proof -
  let ?cfg = "\<lparr>lib_digits = (case otp_digits options of None \<Rightarrow> 6 | Some d \<Rightarrow> d),
      lib_step = (case otp_step options of None \<Rightarrow> 30 | Some p \<Rightarrow> p),
      lib_algorithm = (case otp_algorithm options of None \<Rightarrow> sha1 | Some a \<Rightarrow> a)\<rparr>"
  have cfg: "snd (generateTOTP totp_generate secret options) = ?cfg"
    by (cases "totp_generate ?cfg secret") (simp_all add: generateTOTP_def Let_def)
  have res: "fst (generateTOTP totp_generate secret options) =
     (case totp_generate ?cfg secret of
        Inl e \<Rightarrow> Inl e
      | Inr token \<Rightarrow>
          Inr ((case otp_prefix options of None \<Rightarrow> [] | Some s \<Rightarrow> s) @ token @
               (case otp_postfix options of None \<Rightarrow> [] | Some s \<Rightarrow> s)))"
    by (cases "totp_generate ?cfg secret") (simp_all add: generateTOTP_def Let_def)
  from cfg res show ?thesis by (simp only:)
qed

text \<open>
  With zero digits and a negative period the invalid values are installed in
  \<open>totp.options\<close> whatever the library does, and the call is rejected only if the
  library rejects it: no check of the code's own comes first.
\<close>

theorem generateTOTP_no_check_counterexample:
  "(\<forall>totp_generate :: totp_options \<Rightarrow> string \<Rightarrow> unit + string.
      snd (generateTOTP totp_generate ''JBSWY3DPEHPK3PXP''
             \<lparr>otp_digits = Some 0, otp_step = Some (- 30), otp_algorithm = None,
              otp_prefix = None, otp_postfix = None\<rparr>) =
      \<lparr>lib_digits = 0, lib_step = - 30, lib_algorithm = sha1\<rparr>) \<and>
   \<not> (\<forall>totp_generate :: totp_options \<Rightarrow> string \<Rightarrow> unit + string.
        \<exists>e. fst (generateTOTP totp_generate ''JBSWY3DPEHPK3PXP''
                    \<lparr>otp_digits = Some 0, otp_step = Some (- 30), otp_algorithm = None,
                     otp_prefix = None, otp_postfix = None\<rparr>) = Inl e)"
proof -
  have a: "snd (generateTOTP g ''JBSWY3DPEHPK3PXP''
             \<lparr>otp_digits = Some 0, otp_step = Some (- 30), otp_algorithm = None,
              otp_prefix = None, otp_postfix = None\<rparr>) =
      \<lparr>lib_digits = 0, lib_step = - 30, lib_algorithm = sha1\<rparr>"
    for g :: "totp_options \<Rightarrow> string \<Rightarrow> unit + string"
    by (simp add: generateTOTP_def Let_def split: sum.splits)
  have b: "fst (generateTOTP (\<lambda>_ _. Inr ''0'' :: unit + string) ''JBSWY3DPEHPK3PXP''
             \<lparr>otp_digits = Some 0, otp_step = Some (- 30), otp_algorithm = None,
              otp_prefix = None, otp_postfix = None\<rparr>) = Inr ''0''"
    by (simp add: generateTOTP_def)
  have "\<not> (\<forall>totp_generate :: totp_options \<Rightarrow> string \<Rightarrow> unit + string.
        \<exists>e. fst (generateTOTP totp_generate ''JBSWY3DPEHPK3PXP''
                    \<lparr>otp_digits = Some 0, otp_step = Some (- 30), otp_algorithm = None,
                     otp_prefix = None, otp_postfix = None\<rparr>) = Inl e)"
  proof
    assume "\<forall>totp_generate :: totp_options \<Rightarrow> string \<Rightarrow> unit + string.
        \<exists>e. fst (generateTOTP totp_generate ''JBSWY3DPEHPK3PXP''
                    \<lparr>otp_digits = Some 0, otp_step = Some (- 30), otp_algorithm = None,
                     otp_prefix = None, otp_postfix = None\<rparr>) = Inl e"
    then obtain e where "fst (generateTOTP (\<lambda>_ _. Inr ''0'' :: unit + string) ''JBSWY3DPEHPK3PXP''
             \<lparr>otp_digits = Some 0, otp_step = Some (- 30), otp_algorithm = None,
              otp_prefix = None, otp_postfix = None\<rparr>) = Inl e" by blast
    with b show False by simp
  qed
  with a show ?thesis by blast
qed

lemma smod_nonneg: "0 \<le> k \<Longrightarrow> 0 < l \<Longrightarrow> k smod l = k mod (l::int)"
  by (simp add: signed_modulo_int_def sgn_if)

text \<open>
  C6 (as the code has it). For every whole period with \<open>0 < period \<le> 2 ^ 53\<close> and every
  clock reading at or after the Unix epoch (and within the range of time values),
  \<open>getRemainingTime\<close> equals \<open>period - (floor(now) mod period)\<close>, where \<open>floor(now)\<close> is the
  reading in whole seconds, and lies in \<open>[1, period]\<close>; it is never 0.
\<close>

theorem getRemainingTime_range:
  assumes "0 < period" and "period \<le> MAX_EXACT"
    and "0 \<le> now_ms" and "now_ms \<le> MAX_TIME_VALUE"
  shows "getRemainingTime (Some period) now_ms = Exact (period - (now_ms div 1000) mod period) \<and>
         1 \<le> period - (now_ms div 1000) mod period \<and>
         period - (now_ms div 1000) mod period \<le> period"
proof -
  let ?q = "now_ms div 1000"
  have nn: "0 \<le> ?q" using assms(3) by (simp add: pos_imp_zdiv_nonneg_iff)
  have sm: "?q smod period = ?q mod period"
    using nn assms(1) by (rule smod_nonneg)
  have lo: "0 \<le> ?q mod period"
    using assms(1) by (rule pos_mod_sign)
  have hi: "?q mod period < period"
    using assms(1) by (rule pos_mod_bound)
  from lo hi have range: "1 \<le> period - ?q mod period" "period - ?q mod period \<le> period"
    by linarith+
  from range assms(2) have exact: "\<bar>period - ?q mod period\<bar> \<le> MAX_EXACT" by linarith
  have val: "getRemainingTime (Some period) now_ms = Exact (period - ?q mod period)"
    using assms sm exact by (simp add: getRemainingTime_def Let_def)
  with range show ?thesis by blast
qed

theorem getRemainingTime_range_witness:
  "(0::int) < 30 \<and> 30 \<le> MAX_EXACT \<and> (0::int) \<le> 59000 \<and> 59000 \<le> MAX_TIME_VALUE \<and>
   getRemainingTime (Some 30) 59000 = Exact 1"
proof -
  have b: "30 \<le> MAX_EXACT" "59000 \<le> MAX_TIME_VALUE"
    by (simp_all add: MAX_EXACT_def MAX_TIME_VALUE_def)
  from getRemainingTime_range [of 30 59000] b show ?thesis by simp
qed

text \<open>
  One second before the epoch the remainder is negative, and the result is 31 for a
  period of 30.
\<close>

theorem getRemainingTime_before_epoch_counterexample:
  "getRemainingTime (Some 30) (- 1000) = Exact 31 \<and> \<not> (31 \<le> (30::int))"
  by (simp add: getRemainingTime_def signed_modulo_int_def MAX_EXACT_def MAX_TIME_VALUE_def)


section \<open>Properties of parseOtpAuthUri\<close>

lemma parseOtpAuthUri_SomeD:
  assumes "parseOtpAuthUri new_URL dec uri = Some r"
  shows "\<exists>u label li la params.
           new_URL uri = Some u \<and>
           dec (if startsWith (pathname u) ''/'' then drop 1 (pathname u) else pathname u) = Some label \<and>
           parse_label dec label = Some (li, la) \<and>
           extract_parameters dec (searchParams u) empty_params = Some params \<and>
           d_label r = \<lparr>l_issuer = li, l_account = la\<rparr> \<and>
           p_extra (d_parameters r) = p_extra params \<and>
           p_secret (d_parameters r) = p_secret params"
  using assms unfolding parseOtpAuthUri_def Let_def
  by (auto split: if_splits option.splits prod.splits)

lemma parse_label_cases:
  assumes "parse_label dec label = Some (li, la)"
    and "i = indexOf CHR '':'' label"
    and "issuer = trim (take (nat i) label)"
    and "account = trim (drop (nat i + 1) label)"
  shows "(0 < i \<and> i < int (length label) - 1 \<and> \<not> startsWith account ''%3A'' \<and>
            \<not> (endsWith issuer ''%3'' \<and> startsWith account ''A'') \<longrightarrow>
            li = Some issuer \<and> la = account)"
    and "(0 < i \<and> i < int (length label) - 1 \<and> startsWith account ''%3A'' \<longrightarrow>
            (\<exists>account1. dec account = Some account1 \<and>
               (if endsWith issuer ''%3'' \<and> startsWith account1 ''A''
                then li = dec issuer \<and> dec account1 = Some la
                else li = Some issuer \<and> la = account1)))"
    and "(0 < i \<and> i < int (length label) - 1 \<and> \<not> startsWith account ''%3A'' \<and>
            endsWith issuer ''%3'' \<and> startsWith account ''A'' \<longrightarrow>
            li = dec issuer \<and> dec account = Some la)"
    and "(\<not> (0 < i \<and> i < int (length label) - 1) \<longrightarrow> li = None \<and> la = label)"
    and "la \<noteq> []"
  using assms unfolding parse_label_def Let_def
  by (auto split: if_splits option.splits)

text \<open>
  C7 (as the code has it). The parser splits the percent-decoded label at its first
  colon into the trimmed issuer (left) and the trimmed account (right), provided the
  colon is neither the first nor the last character; otherwise the whole label is the
  account and the label issuer is unset. Two cases depart from the plain split: a
  trimmed account that starts with the literal text \<open>%3A\<close> is percent-decoded once more,
  and when the issuer ends with \<open>%3\<close> and the account starts with \<open>A\<close> both are
  percent-decoded once more. The account of a parsed URI is never empty.
\<close>

theorem parseOtpAuthUri_label:
  assumes "parseOtpAuthUri new_URL dec uri = Some r"
    and "new_URL uri = Some u"
    and "dec (if startsWith (pathname u) ''/'' then drop 1 (pathname u) else pathname u) = Some label"
    and "i = indexOf CHR '':'' label"
    and "issuer = trim (take (nat i) label)"
    and "account = trim (drop (nat i + 1) label)"
  shows "(0 < i \<and> i < int (length label) - 1 \<and> \<not> startsWith account ''%3A'' \<and>
            \<not> (endsWith issuer ''%3'' \<and> startsWith account ''A'') \<longrightarrow>
            d_label r = \<lparr>l_issuer = Some issuer, l_account = account\<rparr>) \<and>
         (0 < i \<and> i < int (length label) - 1 \<and> startsWith account ''%3A'' \<longrightarrow>
            (\<exists>account1. dec account = Some account1 \<and>
               (if endsWith issuer ''%3'' \<and> startsWith account1 ''A''
                then l_issuer (d_label r) = dec issuer \<and> dec account1 = Some (l_account (d_label r))
                else d_label r = \<lparr>l_issuer = Some issuer, l_account = account1\<rparr>))) \<and>
         (0 < i \<and> i < int (length label) - 1 \<and> \<not> startsWith account ''%3A'' \<and>
            endsWith issuer ''%3'' \<and> startsWith account ''A'' \<longrightarrow>
            l_issuer (d_label r) = dec issuer \<and> dec account = Some (l_account (d_label r))) \<and>
         (\<not> (0 < i \<and> i < int (length label) - 1) \<longrightarrow>
            d_label r = \<lparr>l_issuer = None, l_account = label\<rparr>) \<and>
         l_account (d_label r) \<noteq> []"
proof -
  from parseOtpAuthUri_SomeD [OF assms(1)] assms(2,3)
  obtain li la where pl: "parse_label dec label = Some (li, la)"
    and lab: "d_label r = \<lparr>l_issuer = li, l_account = la\<rparr>"
    by auto
  have sel: "l_issuer (d_label r) = li" "l_account (d_label r) = la"
    using lab by simp_all
  note c = parse_label_cases [OF pl assms(4,5,6)]
  have c1: "0 < i \<and> i < int (length label) - 1 \<and> \<not> startsWith account ''%3A'' \<and>
            \<not> (endsWith issuer ''%3'' \<and> startsWith account ''A'') \<longrightarrow>
            d_label r = \<lparr>l_issuer = Some issuer, l_account = account\<rparr>"
    using c(1) lab by simp
  have c2: "0 < i \<and> i < int (length label) - 1 \<and> startsWith account ''%3A'' \<longrightarrow>
            (\<exists>account1. dec account = Some account1 \<and>
               (if endsWith issuer ''%3'' \<and> startsWith account1 ''A''
                then l_issuer (d_label r) = dec issuer \<and> dec account1 = Some (l_account (d_label r))
                else d_label r = \<lparr>l_issuer = Some issuer, l_account = account1\<rparr>))"
    using c(2) lab by auto
  have c3: "0 < i \<and> i < int (length label) - 1 \<and> \<not> startsWith account ''%3A'' \<and>
            endsWith issuer ''%3'' \<and> startsWith account ''A'' \<longrightarrow>
            l_issuer (d_label r) = dec issuer \<and> dec account = Some (l_account (d_label r))"
    using c(3) sel by simp
  have c4: "\<not> (0 < i \<and> i < int (length label) - 1) \<longrightarrow>
            d_label r = \<lparr>l_issuer = None, l_account = label\<rparr>"
    using c(4) lab by simp
  have c5: "l_account (d_label r) \<noteq> []"
    using c(5) sel by simp
  from c1 c2 c3 c4 c5 show ?thesis by (intro conjI)
qed

theorem parseOtpAuthUri_label_witness:
  "d_label (the (parseOtpAuthUri example_URL decodeURIComponent_ascii
      ''otpauth://totp/Example:alice@example.com?SECRET=JBSWY3DPEHPK3PXP&Image=logo.png'')) =
   \<lparr>l_issuer = Some ''Example'', l_account = ''alice@example.com''\<rparr>"
proof -
  let ?uri = "''otpauth://totp/Example:alice@example.com?SECRET=JBSWY3DPEHPK3PXP&Image=logo.png''"
  let ?u = "\<lparr>hostname = ''totp'', pathname = ''/Example:alice@example.com'',
             searchParams = [(''SECRET'', ''JBSWY3DPEHPK3PXP''), (''Image'', ''logo.png'')]\<rparr>"
  let ?label = "''Example:alice@example.com''"
  let ?r = "the (parseOtpAuthUri example_URL decodeURIComponent_ascii ?uri)"
  have "\<not> Option.is_none (parseOtpAuthUri example_URL decodeURIComponent_ascii ?uri)"
    by code_simp
  then have h1: "parseOtpAuthUri example_URL decodeURIComponent_ascii ?uri = Some ?r"
    by (simp add: Option.is_none_def)
  have h2: "example_URL ?uri = Some ?u" by (simp add: example_URL_def)
  have h3: "decodeURIComponent_ascii
      (if startsWith (pathname ?u) ''/'' then drop 1 (pathname ?u) else pathname ?u) = Some ?label"
    by code_simp
  have i: "indexOf CHR '':'' ?label = 7" by code_simp
  have l: "trim (take (nat (indexOf CHR '':'' ?label)) ?label) = ''Example''" by code_simp
  have a: "trim (drop (nat (indexOf CHR '':'' ?label) + 1) ?label) = ''alice@example.com''"
    by code_simp
  have s1: "\<not> startsWith ''alice@example.com'' ''%3A''" by code_simp
  have s2: "\<not> startsWith ''alice@example.com'' ''A''" by code_simp
  from parseOtpAuthUri_label [OF h1 h2 h3 refl refl refl]
  have "0 < indexOf CHR '':'' ?label \<and> indexOf CHR '':'' ?label < int (length ?label) - 1 \<and>
        \<not> startsWith (trim (drop (nat (indexOf CHR '':'' ?label) + 1) ?label)) ''%3A'' \<and>
        \<not> (endsWith (trim (take (nat (indexOf CHR '':'' ?label)) ?label)) ''%3'' \<and>
           startsWith (trim (drop (nat (indexOf CHR '':'' ?label) + 1) ?label)) ''A'') \<longrightarrow>
        d_label ?r = \<lparr>l_issuer = Some (trim (take (nat (indexOf CHR '':'' ?label)) ?label)),
                       l_account = trim (drop (nat (indexOf CHR '':'' ?label) + 1) ?label)\<rparr>"
    by (rule conjunct1)
  then show ?thesis
    unfolding l a unfolding i using s1 s2 by simp
qed

text \<open>
  The label \<open>Ex:%253Auser\<close> decodes to \<open>Ex:%3Auser\<close>; its first colon is at position 2
  and the trimmed right part is \<open>%3Auser\<close>, but the account of the result is \<open>:user\<close>.
\<close>

theorem parseOtpAuthUri_label_counterexample:
  "decodeURIComponent_ascii ''Ex:%253Auser'' = Some ''Ex:%3Auser'' \<and>
   indexOf CHR '':'' ''Ex:%3Auser'' = 2 \<and>
   trim (take 2 ''Ex:%3Auser'') = ''Ex'' \<and>
   trim (drop 3 ''Ex:%3Auser'') = ''%3Auser'' \<and>
   map_option d_label (parseOtpAuthUri example_URL decodeURIComponent_ascii
      ''otpauth://totp/Ex:%253Auser?secret=JBSWY3DPEHPK3PXP&Note=a%2541'') =
   Some \<lparr>l_issuer = Some ''Ex'', l_account = '':user''\<rparr>"
  by code_simp

lemma set_param_extra:
  "p_extra (set_param lk v params) =
     (if lk \<in> recognised_keys \<or> lk = ''__proto__'' then p_extra params
      else (p_extra params)(lk \<mapsto> v))"
  unfolding set_param_def recognised_keys_def Let_def
  by (simp split: option.splits)

lemma extract_parameters_extra:
  assumes "extract_parameters dec entries params = Some params'"
  shows "p_extra params' lk =
     (if lk \<in> recognised_keys \<or> lk = ''__proto__'' then p_extra params lk
      else case filter (\<lambda>(k, v). toLowerCase k = lk) entries of
             [] \<Rightarrow> p_extra params lk
           | e # es \<Rightarrow> dec (snd (last (e # es))))"
  using assms
proof (induction entries arbitrary: params)
  case Nil
  then show ?case by simp
next
  case (Cons entry entries)
  obtain k v where entry: "entry = (k, v)" by (cases entry)
  from Cons.prems entry obtain dv where dv: "dec v = Some dv"
    and rest: "extract_parameters dec entries (set_param (toLowerCase k) dv params) = Some params'"
    by (auto simp: Let_def split: option.splits)
  note IH = Cons.IH [OF rest]
  show ?case
  proof (cases "lk \<in> recognised_keys \<or> lk = ''__proto__''")
    case True
    with IH show ?thesis by (auto simp: set_param_extra)
  next
    case False
    show ?thesis
    proof (cases "toLowerCase k = lk")
      case True
      with False IH dv entry show ?thesis
        by (simp add: set_param_extra split: list.splits)
    next
      case neq: False
      with False IH entry show ?thesis
        by (simp add: set_param_extra split: list.splits)
    qed
  qed
qed

lemma set_param_secret:
  "p_secret (set_param lk v params) = (if lk = ''secret'' then Some v else p_secret params)"
  unfolding set_param_def Let_def
  by (simp split: option.splits)

lemma extract_parameters_secret:
  assumes "extract_parameters dec entries params = Some params'"
  shows "p_secret params' =
     (case filter (\<lambda>(k, v). toLowerCase k = ''secret'') entries of
        [] \<Rightarrow> p_secret params
      | e # es \<Rightarrow> dec (snd (last (e # es))))"
  using assms
proof (induction entries arbitrary: params)
  case Nil
  then show ?case by simp
next
  case (Cons entry entries)
  obtain k v where entry: "entry = (k, v)" by (cases entry)
  from Cons.prems entry obtain dv where dv: "dec v = Some dv"
    and rest: "extract_parameters dec entries (set_param (toLowerCase k) dv params) = Some params'"
    by (auto simp: Let_def split: option.splits)
  note IH = Cons.IH [OF rest]
  show ?case
  proof (cases "toLowerCase k = ''secret''")
    case True
    with IH dv entry show ?thesis
      by (simp add: set_param_secret split: list.splits)
  next
    case False
    with IH entry show ?thesis
      by (simp add: set_param_secret split: list.splits)
  qed
qed

lemma of_char_char_of_small: "n < 256 \<Longrightarrow> of_char (char_of (n::nat)) = n"
  by simp

lemma lowerChar_idem: "lowerChar (lowerChar c) = lowerChar c"
proof -
  have lt: "(of_char c :: nat) < 256" by simp
  show ?thesis
    unfolding lowerChar_def Let_def
    using lt by (auto simp: of_char_char_of_small)
qed

lemma toLowerCase_idem: "toLowerCase (toLowerCase s) = toLowerCase s"
  by (simp add: toLowerCase_def lowerChar_idem)

lemma extract_parameters_lower:
  "extract_parameters dec (map (\<lambda>(k, v). (toLowerCase k, v)) entries) params =
   extract_parameters dec entries params"
proof (induction entries arbitrary: params)
  case Nil
  show ?case by simp
next
  case (Cons entry entries)
  obtain k v where entry: "entry = (k, v)" by (cases entry)
  show ?case using Cons.IH entry
    by (simp add: toLowerCase_idem Let_def split: option.splits)
qed

lemma parseOtpAuthUri_lower_keys:
  "parseOtpAuthUri (lower_keys new_URL) dec uri = parseOtpAuthUri new_URL dec uri"
proof (cases "new_URL uri")
  case None
  then show ?thesis by (simp add: parseOtpAuthUri_def lower_keys_def)
next
  case (Some u)
  then show ?thesis
    by (simp add: parseOtpAuthUri_def lower_keys_def extract_parameters_lower Let_def
          cong: option.case_cong if_cong)
qed

text \<open>
  C8 (as the code has it). Query-parameter keys are matched case-insensitively: every
  key is lower-cased before the \<open>switch\<close>, so a URI parses to the same result as the URI
  with all its keys in lower case. A parameter whose lower-cased key is not one of
  \<open>secret\<close>, \<open>issuer\<close>, \<open>algorithm\<close>, \<open>digits\<close>, \<open>period\<close>, \<open>counter\<close> (nor \<open>__proto__\<close>) is
  kept in the extension map under the lower-cased key, with its value percent-decoded
  once more; of several parameters with the same lower-cased key the last one stays.
  The extension map has no other entries. The secret of the result is the decoded value
  of the last parameter whose lower-cased key is \<open>secret\<close>.
\<close>

theorem parseOtpAuthUri_parameters:
  assumes "parseOtpAuthUri new_URL dec uri = Some r"
    and "new_URL uri = Some u"
  shows "parseOtpAuthUri (lower_keys new_URL) dec uri = Some r \<and>
     p_secret (d_parameters r) =
       (case filter (\<lambda>(k, v). toLowerCase k = ''secret'') (searchParams u) of
          [] \<Rightarrow> None
        | e # es \<Rightarrow> dec (snd (last (e # es)))) \<and>
     p_extra (d_parameters r) lk =
       (if lk \<in> recognised_keys \<or> lk = ''__proto__'' then None
        else case filter (\<lambda>(k, v). toLowerCase k = lk) (searchParams u) of
               [] \<Rightarrow> None
             | e # es \<Rightarrow> dec (snd (last (e # es))))"
proof -
  from parseOtpAuthUri_SomeD [OF assms(1)] assms(2)
  obtain params where ex: "extract_parameters dec (searchParams u) empty_params = Some params"
    and eq: "p_extra (d_parameters r) = p_extra params"
    and eqs: "p_secret (d_parameters r) = p_secret params"
    by auto
  have "p_secret empty_params = None" by (simp add: empty_params_def)
  with extract_parameters_secret [OF ex] eqs
  have secret: "p_secret (d_parameters r) =
       (case filter (\<lambda>(k, v). toLowerCase k = ''secret'') (searchParams u) of
          [] \<Rightarrow> None
        | e # es \<Rightarrow> dec (snd (last (e # es))))"
    by (auto split: list.splits)
  have "p_extra empty_params lk = None" by (simp add: empty_params_def)
  with extract_parameters_extra [OF ex, of lk] eq
  have "p_extra (d_parameters r) lk =
       (if lk \<in> recognised_keys \<or> lk = ''__proto__'' then None
        else case filter (\<lambda>(k, v). toLowerCase k = lk) (searchParams u) of
               [] \<Rightarrow> None
             | e # es \<Rightarrow> dec (snd (last (e # es))))"
    by (auto split: list.splits)
  moreover have "parseOtpAuthUri (lower_keys new_URL) dec uri = Some r"
    using assms(1) by (simp add: parseOtpAuthUri_lower_keys)
  ultimately show ?thesis using secret by (intro conjI)
qed

theorem parseOtpAuthUri_parameters_witness:
  "p_extra (d_parameters (the (parseOtpAuthUri example_URL decodeURIComponent_ascii
      ''otpauth://totp/Ex:%253Auser?secret=JBSWY3DPEHPK3PXP&Note=a%2541''))) ''note'' = Some ''aA'' \<and>
   parseOtpAuthUri (lower_keys example_URL) decodeURIComponent_ascii
      ''otpauth://totp/Ex:%253Auser?secret=JBSWY3DPEHPK3PXP&Note=a%2541'' =
   parseOtpAuthUri example_URL decodeURIComponent_ascii
      ''otpauth://totp/Ex:%253Auser?secret=JBSWY3DPEHPK3PXP&Note=a%2541''"
proof -
  let ?uri = "''otpauth://totp/Ex:%253Auser?secret=JBSWY3DPEHPK3PXP&Note=a%2541''"
  let ?u = "\<lparr>hostname = ''totp'', pathname = ''/Ex:%253Auser'',
             searchParams = [(''secret'', ''JBSWY3DPEHPK3PXP''), (''Note'', ''a%41'')]\<rparr>"
  let ?r = "the (parseOtpAuthUri example_URL decodeURIComponent_ascii ?uri)"
  have "\<not> Option.is_none (parseOtpAuthUri example_URL decodeURIComponent_ascii ?uri)"
    by code_simp
  then have h1: "parseOtpAuthUri example_URL decodeURIComponent_ascii ?uri = Some ?r"
    by (simp add: Option.is_none_def)
  have h2: "example_URL ?uri = Some ?u" by (simp add: example_URL_def)
  have rhs: "(if ''note'' \<in> recognised_keys \<or> ''note'' = ''__proto__'' then None
        else case filter (\<lambda>(k, v). toLowerCase k = ''note'') (searchParams ?u) of
               [] \<Rightarrow> None
             | e # es \<Rightarrow> decodeURIComponent_ascii (snd (last (e # es)))) = Some ''aA''"
    by code_simp
  from parseOtpAuthUri_parameters [OF h1 h2, of "''note''"]
  have a: "parseOtpAuthUri (lower_keys example_URL) decodeURIComponent_ascii ?uri = Some ?r"
    and b: "p_extra (d_parameters ?r) ''note'' =
       (if ''note'' \<in> recognised_keys \<or> ''note'' = ''__proto__'' then None
        else case filter (\<lambda>(k, v). toLowerCase k = ''note'') (searchParams ?u) of
               [] \<Rightarrow> None
             | e # es \<Rightarrow> decodeURIComponent_ascii (snd (last (e # es))))"
    by blast+
  from b rhs have "p_extra (d_parameters ?r) ''note'' = Some ''aA''" by (rule trans)
  moreover from a h1 have "parseOtpAuthUri (lower_keys example_URL) decodeURIComponent_ascii ?uri =
      parseOtpAuthUri example_URL decodeURIComponent_ascii ?uri" by simp
  ultimately show ?thesis by (rule conjI)
qed

text \<open>
  The parameter \<open>Image=logo.png\<close> is not an entry \<open>Image\<close> of the extension map: it is
  stored under \<open>image\<close>. (\<open>SECRET\<close> is matched as \<open>secret\<close>.)
\<close>

theorem parseOtpAuthUri_parameters_counterexample:
  "map_option (\<lambda>r. (p_secret (d_parameters r), p_extra (d_parameters r) ''Image'',
                     p_extra (d_parameters r) ''image''))
     (parseOtpAuthUri example_URL decodeURIComponent_ascii
        ''otpauth://totp/Example:alice@example.com?SECRET=JBSWY3DPEHPK3PXP&Image=logo.png'') =
   Some (Some ''JBSWY3DPEHPK3PXP'', None, Some ''logo.png'')"
  by code_simp

end
